theory Spec2Isabelle
  imports Main
begin

section \<open>Build-context resolution of ko (pkg/build/context.go)\<close>

text \<open>
  A shallow embedding of \<^verbatim>\<open>pkg/build/context.go\<close>: the construction of a
  \<^verbatim>\<open>goBuildContext\<close> from the process-wide \<^verbatim>\<open>go/build.Default\<close>, the module
  listing \<^verbatim>\<open>moduleInfo\<close>, \<^verbatim>\<open>qualifyLocalImport\<close> and \<^verbatim>\<open>importPackage\<close>.

  The file calls four packages that are not part of the repository: \<^verbatim>\<open>os/exec\<close>
  (running \<^verbatim>\<open>go env GOROOT\<close> and \<^verbatim>\<open>go list -m all\<close>), \<^verbatim>\<open>encoding/json\<close>,
  \<^verbatim>\<open>golang.org/x/tools/go/packages\<close> and \<^verbatim>\<open>go/build\<close>, and \<^verbatim>\<open>strings.TrimSpace\<close>.
  Their results are parameters of the model (the record \<open>world\<close> below); everything the
  file itself does with these results is translated line by line.
\<close>

subsection \<open>Errors\<close>

text \<open>
  A Go \<^verbatim>\<open>error\<close> value. \<open>EOF\<close> is the sentinel \<^verbatim>\<open>io.EOF\<close>, which the decode loop
  compares against with \<^verbatim>\<open>==\<close>. \<open>ExternalError m\<close> is any error made by one of the
  external packages, with message \<open>m\<close>; it is never equal to the sentinel.
  \<open>Errorf m w\<close> is an error made by \<^verbatim>\<open>fmt.Errorf\<close> in this file: \<open>m\<close> is the
  formatted message and \<open>w\<close> the error wrapped by a \<^verbatim>\<open>%w\<close> verb, if the format
  has one. A nil error is \<open>None :: error option\<close>.
\<close>

datatype error = EOF | ExternalError string | Errorf string "error option"

text \<open>The method \<^verbatim>\<open>Error()\<close>: the message of an error.\<close>

fun Error :: "error \<Rightarrow> string" where
  "Error EOF = ''EOF''"
| "Error (ExternalError m) = m"
| "Error (Errorf m w) = m"

text \<open>The verb \<^verbatim>\<open>%d\<close> on a non-negative \<^verbatim>\<open>int\<close> (here always a \<^verbatim>\<open>len\<close>).\<close>

fun itoa :: "nat \<Rightarrow> string" where
  "itoa n = (if n < 10 then [''0123456789'' ! n]
             else itoa (n div 10) @ [''0123456789'' ! (n mod 10)])"

subsection \<open>Data model\<close>

text \<open>
  \<^verbatim>\<open>type modInfo struct { Path string; Dir string; Main bool }\<close>. The field
  \<^verbatim>\<open>Dir\<close> is called \<open>ModDir\<close> here, to keep it apart from the field \<^verbatim>\<open>Dir\<close> of
  \<^verbatim>\<open>go/build.Context\<close>.
\<close>

record modInfo =
  Path :: string
  ModDir :: string
  Main :: bool

text \<open>
  \<^verbatim>\<open>type modules struct { main *modInfo; deps map[string]*modInfo }\<close>. Both fields
  hold pointers. Every iteration of the decode loop declares a fresh variable
  \<^verbatim>\<open>info\<close> whose address escapes, so the loop allocates one \<^verbatim>\<open>modInfo\<close> per
  iteration. The allocated records are kept in a heap (a list); the address of a record
  is its index in the heap, and a nil pointer is \<open>None\<close>.
\<close>

type_synonym addr = nat

type_synonym heap = "modInfo list"

record modules =
  main :: "addr option"
  deps :: "string \<rightharpoonup> addr"

text \<open>Reading through a pointer into the heap.\<close>

definition deref :: "heap \<Rightarrow> addr \<Rightarrow> modInfo option" where
  "deref h a = (if a < length h then Some (h ! a) else None)"

text \<open>
  The fields of \<^verbatim>\<open>go/build.Context\<close> that are plain data. The struct is held by
  value in \<^verbatim>\<open>goBuildContext\<close> (``Not a pointer, we need a copy of the
  go/build.Context''), so that assigning it copies every field.
\<close>

record Context =
  GOARCH :: string
  GOOS :: string
  GOROOT :: string
  GOPATH :: string
  Dir :: string
  CgoEnabled :: bool
  UseAllFiles :: bool
  Compiler :: string
  BuildTags :: "string list"
  ReleaseTags :: "string list"
  InstallSuffix :: string

record goBuildContext =
  bc :: Context

text \<open>\<^verbatim>\<open>packages.Config\<close> as this file fills it, and the loaded \<^verbatim>\<open>packages.Package\<close>.\<close>

datatype LoadMode = NeedName

record Config =
  Mode :: LoadMode
  cfg_Dir :: string

record Package =
  ID :: string
  Name :: string
  PkgPath :: string

datatype ImportMode = ImportComment

subsection \<open>The external collaborators\<close>

text \<open>
  One step of a \<^verbatim>\<open>json.Decoder\<close> over a byte slice: \<^verbatim>\<open>dec.Decode(&info)\<close> either
  fills \<^verbatim>\<open>info\<close> and returns nil, or returns an error and leaves \<^verbatim>\<open>info\<close> as far as
  it got, or, once the input is used up, returns \<^verbatim>\<open>io.EOF\<close> and leaves \<^verbatim>\<open>info\<close>
  untouched. A decoder is therefore the finite list of the outcomes still to come: the
  value of \<^verbatim>\<open>info\<close> after the call, and the returned error.
\<close>

type_synonym decoder = "(modInfo \<times> error option) list"

definition zero_modInfo :: modInfo where
  "zero_modInfo = \<lparr>Path = '''', ModDir = '''', Main = False\<rparr>"

fun Decode :: "decoder \<Rightarrow> (modInfo \<times> error option) \<times> decoder" where
  "Decode [] = ((zero_modInfo, Some EOF), [])"
| "Decode (r # rs) = (r, rs)"

text \<open>
  \<open>cmd_Output w ctx argv dir\<close> is \<^verbatim>\<open>exec.CommandContext(ctx, argv...)\<close> with
  \<^verbatim>\<open>cmd.Dir = dir\<close> followed by \<^verbatim>\<open>cmd.Output()\<close>: the bytes written to standard
  output, and the error. The type \<open>'ctx\<close> stands for the (non-nil)
  \<^verbatim>\<open>context.Context\<close> values; \<open>'pkg\<close> for \<^verbatim>\<open>*go/build.Package\<close>.
\<close>

record ('ctx, 'pkg) world =
  cmd_Output :: "'ctx \<Rightarrow> string list \<Rightarrow> string \<Rightarrow> string \<times> error option"
  TrimSpace :: "string \<Rightarrow> string"
  NewDecoder :: "string \<Rightarrow> decoder"
  packages_Load :: "Config \<Rightarrow> string list \<Rightarrow> Package list \<times> error option"
  gb_Import :: "Context \<Rightarrow> string \<Rightarrow> string \<Rightarrow> ImportMode \<Rightarrow> 'pkg \<times> error option"

subsection \<open>Process-wide state\<close>

text \<open>
  The two pieces of process-wide state the file touches: the variable
  \<^verbatim>\<open>go/build.Default\<close>, and the output of the standard logger. A call
  \<^verbatim>\<open>log.Printf(format, args...)\<close> appends one entry, kept as the format and its
  arguments.
\<close>

datatype arg = ArgString string | ArgError error

datatype log_entry = Printf string "arg list"

record global =
  gb_Default :: Context
  log_output :: "log_entry list"

definition log_Printf :: "string \<Rightarrow> arg list \<Rightarrow> global \<Rightarrow> global" where
  "log_Printf format args s = s\<lparr>log_output := log_output s @ [Printf format args]\<rparr>"

definition nl :: char where
  "nl = CHR 0x0A"

definition dquote :: char where
  "dquote = CHR 0x22"

definition unlines :: "string list \<Rightarrow> string" where
  "unlines ls = concat (map (\<lambda>l. l @ [nl]) ls)"

definition gorootWarningTemplate :: string where
  "gorootWarningTemplate = unlines
     [''NOTICE!'',
      ''-----------------------------------------------------------------'',
      ''ko and go have mismatched GOROOT:'',
      ''    go/build.Default.GOROOT = %q'',
      ''    $(go env GOROOT) = %q'',
      '''',
      ''Inferring GOROOT=%q'',
      '''',
      ''Run this to remove this warning:'',
      ''    export GOROOT=$(go env GOROOT)'',
      '''',
      ''For more information see:'',
      ''    https://github.com/google/ko/issues/106'',
      ''-----------------------------------------------------------------'']"

definition probeErrorFormat :: string where
  "probeErrorFormat =
     ''Unexpected error running '' @ [dquote] @ ''go env GOROOT'' @ [dquote] @ '': %v''
       @ [nl] @ ''%v''"

definition probeEmptyFormat :: string where
  "probeEmptyFormat = ''Unexpected: $(go env GOROOT) == '' @ [dquote, dquote]"

subsection \<open>getGoroot and newBuildContext\<close>

definition getGoroot :: "('ctx, 'pkg) world \<Rightarrow> 'ctx \<Rightarrow> string \<Rightarrow> string \<times> error option" where
  "getGoroot w ctx dir =
     (let (output, err) = cmd_Output w ctx [''go'', ''env'', ''GOROOT''] dir
      in (TrimSpace w output, err))"

text \<open>
  \<^verbatim>\<open>newBuildContext\<close> returns \<^verbatim>\<open>(buildContext, error)\<close>; the first component is
  \<open>Some g\<close> for the pointer to the new \<^verbatim>\<open>goBuildContext\<close> \<open>g\<close>. The process-wide
  state goes in and comes out.
\<close>

definition newBuildContext ::
  "('ctx, 'pkg) world \<Rightarrow> 'ctx \<Rightarrow> string \<Rightarrow> global
     \<Rightarrow> (goBuildContext option \<times> error option) \<times> global" where
  "newBuildContext w ctx dir s =
     (let g = \<lparr>bc = gb_Default s\<rparr>;
          g = g\<lparr>bc := (bc g)\<lparr>Dir := dir\<rparr>\<rparr>;
          (goroot, err) = getGoroot w ctx dir;
          (goroot, s) =
            (case err of
               Some e \<Rightarrow> ('''', log_Printf probeErrorFormat [ArgError e, ArgString goroot] s)
             | None \<Rightarrow>
                 if goroot = '''' then (goroot, log_Printf probeEmptyFormat [] s)
                 else (goroot, s));
          (g, s) =
            (if goroot \<noteq> '''' \<and> GOROOT (bc g) \<noteq> goroot
             then (g\<lparr>bc := (bc g)\<lparr>GOROOT := goroot\<rparr>\<rparr>,
                   log_Printf gorootWarningTemplate
                     [ArgString (GOROOT (bc g)), ArgString goroot, ArgString goroot] s)
             else (g, s))
      in ((Some g, None), s))"

subsection \<open>importPackage\<close>

definition importPackage ::
  "('ctx, 'pkg) world \<Rightarrow> goBuildContext \<Rightarrow> string \<Rightarrow> string \<Rightarrow> global
     \<Rightarrow> ('pkg \<times> error option) \<times> global" where
  "importPackage w g path srcDir s = (gb_Import w (bc g) path srcDir ImportComment, s)"

subsection \<open>moduleInfo\<close>

text \<open>
  The body of the \<^verbatim>\<open>for\<close> loop. It stops with \<open>Inr\<close> at \<^verbatim>\<open>io.EOF\<close> (the
  \<^verbatim>\<open>break\<close>) and with \<open>Inl\<close> at the \<^verbatim>\<open>return nil, fmt.Errorf(...)\<close>. The record
  is stored in \<^verbatim>\<open>deps\<close>, and in \<^verbatim>\<open>main\<close> when it is marked, before the error of
  the decoder is looked at.
\<close>

function decode_loop :: "decoder \<Rightarrow> heap \<Rightarrow> modules \<Rightarrow> error + (heap \<times> modules)" where
  "decode_loop dec h ms =
     (case Decode dec of
        ((info, err), dec') \<Rightarrow>
          if err = Some EOF then Inr (h, ms)
          else
            let a = length h;
                h' = h @ [info];
                ms = ms\<lparr>deps := (deps ms)(Path info \<mapsto> a)\<rparr>;
                ms = (if Main info then ms\<lparr>main := Some a\<rparr> else ms)
            in (case err of
                  Some e \<Rightarrow> Inl (Errorf (''error reading module data '' @ Error e) (Some e))
                | None \<Rightarrow> decode_loop dec' h' ms))"
  by pat_completeness auto
termination
  apply (relation "measure (\<lambda>(dec, h, ms). length dec)")
   apply simp
  subgoal for dec
    by (cases dec) auto
  done

declare decode_loop.simps [simp del]

definition moduleInfo ::
  "('ctx, 'pkg) world \<Rightarrow> goBuildContext \<Rightarrow> 'ctx \<Rightarrow> global
     \<Rightarrow> ((heap \<times> modules) option \<times> error option) \<times> global" where
  "moduleInfo w g ctx s =
     (let modules = \<lparr>main = None, deps = Map.empty\<rparr>;
          (output, err) =
            cmd_Output w ctx [''go'', ''list'', ''-mod=readonly'', ''-json'', ''-m'', ''all'']
              (Dir (bc g))
      in case err of
           Some e \<Rightarrow> ((None, None), s)
         | None \<Rightarrow>
             let dec = NewDecoder w output
             in (case decode_loop dec [] modules of
                   Inl e \<Rightarrow> ((None, Some e), s)
                 | Inr (h, modules) \<Rightarrow>
                     if main modules = None
                     then ((None, Some (Errorf ''couldn't find main module'' None)), s)
                     else ((Some (h, modules), None), s)))"

subsection \<open>qualifyLocalImport\<close>

definition qualifyLocalImport ::
  "('ctx, 'pkg) world \<Rightarrow> goBuildContext \<Rightarrow> string \<Rightarrow> global
     \<Rightarrow> (string \<times> error option) \<times> global" where
  "qualifyLocalImport w g importpath s =
     (let cfg = \<lparr>Mode = NeedName, cfg_Dir = Dir (bc g)\<rparr>;
          (pkgs, err) = packages_Load w cfg [importpath]
      in case err of
           Some e \<Rightarrow> (('''', Some e), s)
         | None \<Rightarrow>
             if length pkgs \<noteq> 1
             then (('''',
                    Some (Errorf (''found '' @ itoa (length pkgs) @ '' local packages, expected 1'')
                            None)), s)
             else ((PkgPath (pkgs ! 0), None), s))"

subsection \<open>Log entries\<close>

text \<open>
  A log entry is a mismatch warning when it was printed with \<^verbatim>\<open>gorootWarningTemplate\<close>.
\<close>

definition is_mismatch_warning :: "log_entry \<Rightarrow> bool" where
  "is_mismatch_warning e = (case e of Printf format args \<Rightarrow> format = gorootWarningTemplate)"

subsection \<open>Listing streams\<close>

text \<open>
  \<open>goList w g ctx\<close> names the result of the invocation in \<^verbatim>\<open>moduleInfo\<close>.
  \<open>oks recs\<close> is a decoder that delivers the records \<open>recs\<close> without error and then
  reaches the end of its input; \<open>decoded dec\<close> is the list of the values the calls of
  \<^verbatim>\<open>Decode\<close> deliver before the end of the input.
\<close>

definition goList :: "('ctx, 'pkg) world \<Rightarrow> goBuildContext \<Rightarrow> 'ctx \<Rightarrow> string \<times> error option" where
  "goList w g ctx =
     cmd_Output w ctx [''go'', ''list'', ''-mod=readonly'', ''-json'', ''-m'', ''all'']
       (Dir (bc g))"

definition oks :: "modInfo list \<Rightarrow> decoder" where
  "oks recs = map (\<lambda>r. (r, None)) recs"

definition decoded :: "decoder \<Rightarrow> modInfo list" where
  "decoded dec = map fst (takeWhile (\<lambda>(info, err). err \<noteq> Some EOF) dec)"

subsection \<open>Example environments\<close>

text \<open>
  Concrete collaborators on which the theorems below are run. \<open>trim_ascii\<close> is
  \<^verbatim>\<open>strings.TrimSpace\<close> on ASCII input.
\<close>

definition trim_ascii :: "string \<Rightarrow> string" where
  "trim_ascii s =
     (let sp = (\<lambda>c. c \<in> set [CHR '' '', CHR 0x09, CHR 0x0A, CHR 0x0B, CHR 0x0C, CHR 0x0D])
      in rev (dropWhile sp (rev (dropWhile sp s))))"

definition example_world ::
  "string \<times> error option \<Rightarrow> string \<times> error option \<Rightarrow> decoder
     \<Rightarrow> Package list \<times> error option \<Rightarrow> (unit, unit) world" where
  "example_world env_out list_out dec loaded =
     \<lparr>cmd_Output = (\<lambda>ctx argv dir. if argv = [''go'', ''env'', ''GOROOT''] then env_out else list_out),
      TrimSpace = trim_ascii,
      NewDecoder = (\<lambda>output. dec),
      packages_Load = (\<lambda>cfg patterns. loaded),
      gb_Import = (\<lambda>c path srcDir mode. ((), Some (ExternalError ''cannot find package'')))\<rparr>"

definition example_default :: Context where
  "example_default =
     \<lparr>GOARCH = ''amd64'', GOOS = ''linux'', GOROOT = ''/usr/local/go'', GOPATH = ''/go'',
      Dir = '''', CgoEnabled = True, UseAllFiles = False, Compiler = ''gc'',
      BuildTags = [], ReleaseTags = [''go1.1''], InstallSuffix = ''''\<rparr>"

definition example_global :: global where
  "example_global = \<lparr>gb_Default = example_default, log_output = []\<rparr>"

definition probe_new :: "(unit, unit) world" where
  "probe_new = example_world (''/opt/go1.15'' @ [nl], None) ('''', None) [] ([], None)"

definition probe_same :: "(unit, unit) world" where
  "probe_same = example_world (''/usr/local/go'' @ [nl], None) ('''', None) [] ([], None)"

definition probe_failed :: "(unit, unit) world" where
  "probe_failed = example_world ('''', Some (ExternalError ''exec: go: executable file not found in $PATH'')) ('''', None) [] ([], None)"

definition probe_empty :: "(unit, unit) world" where
  "probe_empty = example_world ([nl], None) ('''', None) [] ([], None)"

text \<open>
  Listings: the main module \<open>app\<close> and its dependency \<open>lib\<close>, and collaborators whose
  \<^verbatim>\<open>go list\<close> fails, lists both modules, lists no main module, breaks off inside a
  record, or lists two main modules and one path twice.
\<close>

definition app :: modInfo where
  "app = \<lparr>Path = ''example.com/app'', ModDir = ''/src'', Main = True\<rparr>"

definition lib :: modInfo where
  "lib = \<lparr>Path = ''example.com/lib'', ModDir = ''/go/pkg/mod/example.com/lib@v1.0.0'', Main = False\<rparr>"

definition example_g :: goBuildContext where
  "example_g = \<lparr>bc = example_default\<lparr>Dir := ''/src''\<rparr>\<rparr>"

definition listing :: "string \<times> error option \<Rightarrow> decoder \<Rightarrow> (unit, unit) world" where
  "listing list_out dec = example_world (''/usr/local/go'' @ [nl], None) list_out dec ([], None)"

definition listing_failed :: "(unit, unit) world" where
  "listing_failed = listing ('''', Some (ExternalError ''exit status 1'')) []"

definition listing_app_lib :: "(unit, unit) world" where
  "listing_app_lib = listing (''{...}{...}'', None) (oks [app, lib])"

definition listing_no_main :: "(unit, unit) world" where
  "listing_no_main = listing (''{...}'', None) (oks [lib])"

definition listing_malformed :: "(unit, unit) world" where
  "listing_malformed =
     listing (''{...}{'', None) (oks [app] @ [(zero_modInfo, Some (ExternalError ''unexpected EOF''))])"

definition lib_main :: modInfo where
  "lib_main = lib\<lparr>Main := True\<rparr>"

definition listing_two_mains :: "(unit, unit) world" where
  "listing_two_mains = listing (''{...}{...}{...}'', None) (oks [app, lib_main, lib])"

text \<open>
  A listing that names the path of \<open>lib\<close> a second time, and collaborators whose package
  loader returns a given result.
\<close>

definition lib_replaced :: modInfo where
  "lib_replaced = \<lparr>Path = ''example.com/lib'', ModDir = ''/src/vendor/lib'', Main = False\<rparr>"

definition listing_repeated :: "(unit, unit) world" where
  "listing_repeated = listing (''{...}{...}{...}'', None) (oks [app, lib, lib_replaced])"

definition loading :: "Package list \<times> error option \<Rightarrow> (unit, unit) world" where
  "loading loaded = example_world (''/usr/local/go'' @ [nl], None) ('''', None) [] loaded"

definition foo :: Package where
  "foo = \<lparr>ID = ''example.com/app/foo'', Name = ''foo'', PkgPath = ''example.com/app/foo''\<rparr>"

definition bar :: Package where
  "bar = \<lparr>ID = ''example.com/app/bar'', Name = ''bar'', PkgPath = ''example.com/app/bar''\<rparr>"

text \<open>The number a string of decimal digits denotes.\<close>

definition decimal_value :: "string \<Rightarrow> nat" where
  "decimal_value ds = foldl (\<lambda>a c. 10 * a + (of_char c - 48)) 0 ds"

section \<open>Properties\<close>

lemmas listing_defs = listing_def example_world_def goList_def example_g_def example_default_def

lemmas example_defs = example_world_def example_default_def example_global_def trim_ascii_def
  getGoroot_def nl_def

subsection \<open>The decode loop, one step at a time\<close>

lemma decode_loop_Nil: "decode_loop [] h ms = Inr (h, ms)"
  by (simp add: decode_loop.simps)

lemma decode_loop_Cons:
  "decode_loop ((info, err) # dec) h ms =
     (if err = Some EOF then Inr (h, ms)
      else case err of
             Some e \<Rightarrow> Inl (Errorf (''error reading module data '' @ Error e) (Some e))
           | None \<Rightarrow>
               decode_loop dec (h @ [info])
                 (if Main info
                  then ms\<lparr>deps := (deps ms)(Path info \<mapsto> length h), main := Some (length h)\<rparr>
                  else ms\<lparr>deps := (deps ms)(Path info \<mapsto> length h)\<rparr>))"
  by (simp add: decode_loop.simps Let_def split: option.splits)

lemma oks_simps: "oks [] = []" "oks (r # rs) = (r, None) # oks rs"
  by (simp_all add: oks_def)

lemma decode_loop_oks_heap:
  "\<exists>ms'. decode_loop (oks recs) h ms = Inr (h @ recs, ms')"
proof (induction recs arbitrary: h ms)
  case Nil
  show ?case by (simp add: oks_simps decode_loop_Nil)
next
  case (Cons r recs)
  show ?case
    using Cons.IH [of "h @ [r]"] by (simp add: oks_simps decode_loop_Cons)
qed

lemma decode_loop_oks_deps_other:
  "decode_loop (oks recs) h ms = Inr (h', ms') \<Longrightarrow> p \<notin> Path ` set recs \<Longrightarrow> deps ms' p = deps ms p"
proof (induction recs arbitrary: h ms)
  case Nil
  then show ?case by (simp add: oks_simps decode_loop_Nil)
next
  case (Cons r recs)
  from Cons.prems show ?case
    by (auto simp add: oks_simps decode_loop_Cons dest!: Cons.IH split: if_splits)
qed

lemma decode_loop_oks_main_other:
  "decode_loop (oks recs) h ms = Inr (h', ms') \<Longrightarrow> \<forall>r\<in>set recs. \<not> Main r \<Longrightarrow> main ms' = main ms"
proof (induction recs arbitrary: h ms)
  case Nil
  then show ?case by (simp add: oks_simps decode_loop_Nil)
next
  case (Cons r recs)
  from Cons.prems show ?case
    by (auto simp add: oks_simps decode_loop_Cons dest!: Cons.IH)
qed

lemma decode_loop_oks_deps_last:
  "decode_loop (oks recs) h ms = Inr (h', ms') \<Longrightarrow> i < length recs \<Longrightarrow>
   \<forall>j. i < j \<and> j < length recs \<longrightarrow> Path (recs ! j) \<noteq> Path (recs ! i) \<Longrightarrow>
   deps ms' (Path (recs ! i)) = Some (length h + i)"
proof (induction recs arbitrary: h ms i)
  case Nil
  then show ?case by simp
next
  case (Cons r recs)
  let ?ms1 = "if Main r
              then ms\<lparr>deps := (deps ms)(Path r \<mapsto> length h), main := Some (length h)\<rparr>
              else ms\<lparr>deps := (deps ms)(Path r \<mapsto> length h)\<rparr>"
  from Cons.prems(1) have run: "decode_loop (oks recs) (h @ [r]) ?ms1 = Inr (h', ms')"
    by (simp add: oks_simps decode_loop_Cons)
  show ?case
  proof (cases i)
    case 0
    have "Path r \<notin> Path ` set recs"
    proof
      assume "Path r \<in> Path ` set recs"
      then obtain k where "k < length recs" "Path (recs ! k) = Path r"
        by (auto simp add: in_set_conv_nth)
      with Cons.prems(3) [rule_format, of "Suc k"] 0 show False
        by simp
    qed
    from decode_loop_oks_deps_other [OF run this] 0 show ?thesis
      by simp
  next
    case (Suc k)
    with Cons.prems have k: "k < length recs"
      and later: "\<forall>j. k < j \<and> j < length recs \<longrightarrow> Path (recs ! j) \<noteq> Path (recs ! k)"
      by auto
    from Cons.IH [OF run k later] Suc show ?thesis
      by simp
  qed
qed

lemma decode_loop_oks_main_last:
  "decode_loop (oks recs) h ms = Inr (h', ms') \<Longrightarrow> i < length recs \<Longrightarrow> Main (recs ! i) \<Longrightarrow>
   \<forall>j. i < j \<and> j < length recs \<longrightarrow> \<not> Main (recs ! j) \<Longrightarrow>
   main ms' = Some (length h + i)"
proof (induction recs arbitrary: h ms i)
  case Nil
  then show ?case by simp
next
  case (Cons r recs)
  let ?ms1 = "if Main r
              then ms\<lparr>deps := (deps ms)(Path r \<mapsto> length h), main := Some (length h)\<rparr>
              else ms\<lparr>deps := (deps ms)(Path r \<mapsto> length h)\<rparr>"
  from Cons.prems(1) have run: "decode_loop (oks recs) (h @ [r]) ?ms1 = Inr (h', ms')"
    by (simp add: oks_simps decode_loop_Cons)
  show ?case
  proof (cases i)
    case 0
    have "\<forall>x\<in>set recs. \<not> Main x"
    proof
      fix x assume "x \<in> set recs"
      then obtain k where "k < length recs" "recs ! k = x"
        by (auto simp add: in_set_conv_nth)
      with Cons.prems(4) [rule_format, of "Suc k"] 0 show "\<not> Main x"
        by simp
    qed
    from decode_loop_oks_main_other [OF run this] 0 Cons.prems(3) show ?thesis
      by simp
  next
    case (Suc k)
    with Cons.prems have k: "k < length recs" and m: "Main (recs ! k)"
      and later: "\<forall>j. k < j \<and> j < length recs \<longrightarrow> \<not> Main (recs ! j)"
      by auto
    from Cons.IH [OF run k m later] Suc show ?thesis
      by simp
  qed
qed

lemma decode_loop_oks_dom:
  "decode_loop (oks recs) h ms = Inr (h', ms') \<Longrightarrow> dom (deps ms') = dom (deps ms) \<union> Path ` set recs"
proof (induction recs arbitrary: h ms)
  case Nil
  then show ?case by (simp add: oks_simps decode_loop_Nil)
next
  case (Cons r recs)
  let ?ms1 = "if Main r
              then ms\<lparr>deps := (deps ms)(Path r \<mapsto> length h), main := Some (length h)\<rparr>
              else ms\<lparr>deps := (deps ms)(Path r \<mapsto> length h)\<rparr>"
  from Cons.prems have run: "decode_loop (oks recs) (h @ [r]) ?ms1 = Inr (h', ms')"
    by (simp add: oks_simps decode_loop_Cons)
  have "dom (deps ?ms1) = insert (Path r) (dom (deps ms))"
    by simp
  with Cons.IH [OF run] show ?case
    by simp
qed

lemma decode_loop_error:
  "e \<noteq> EOF \<Longrightarrow>
   decode_loop (oks pre @ (info, Some e) # rest) h ms =
     Inl (Errorf (''error reading module data '' @ Error e) (Some e))"
  by (induction pre arbitrary: h ms) (simp_all add: oks_simps decode_loop_Cons)

lemma decode_loop_success_decoded:
  "decode_loop dec h ms = Inr r \<Longrightarrow> decode_loop (oks (decoded dec)) h ms = Inr r"
proof (induction dec arbitrary: h ms)
  case Nil
  then show ?case by (simp add: decoded_def oks_simps)
next
  case (Cons x dec)
  obtain info err where x: "x = (info, err)" by (cases x)
  from Cons.prems show ?case
    by (auto simp add: x decoded_def oks_simps decode_loop_Cons decode_loop_Nil
        dest!: Cons.IH split: if_splits option.splits)
qed

lemma last_with:
  "\<exists>x\<in>set xs. P x \<Longrightarrow> \<exists>i<length xs. P (xs ! i) \<and> (\<forall>j. i < j \<and> j < length xs \<longrightarrow> \<not> P (xs ! j))"
proof (induction xs rule: rev_induct)
  case Nil
  then show ?case by simp
next
  case (snoc x xs)
  show ?case
  proof (cases "P x")
    case True
    then have "P ((xs @ [x]) ! length xs) \<and> (\<forall>j. length xs < j \<and> j < length (xs @ [x]) \<longrightarrow> \<not> P ((xs @ [x]) ! j))"
      by auto
    then show ?thesis
      by (intro exI [of _ "length xs"]) simp
  next
    case False
    with snoc.prems have "\<exists>x\<in>set xs. P x" by auto
    from snoc.IH [OF this] obtain i where i: "i < length xs" "P (xs ! i)"
      "\<forall>j. i < j \<and> j < length xs \<longrightarrow> \<not> P (xs ! j)" by blast
    have "\<forall>j. i < j \<and> j < length (xs @ [x]) \<longrightarrow> \<not> P ((xs @ [x]) ! j)"
      using i(3) False by (auto simp add: nth_append less_Suc_eq)
    with i(1,2) show ?thesis
      by (intro exI [of _ i]) (simp add: nth_append)
  qed
qed

subsection \<open>Construction of the build context\<close>

lemma probeEmptyFormat_not_warning: "\<not> is_mismatch_warning (Printf probeEmptyFormat [])"
  by (simp add: is_mismatch_warning_def probeEmptyFormat_def gorootWarningTemplate_def unlines_def)

text \<open>
  C5. When \<^verbatim>\<open>getGoroot\<close> returns without error a non-empty root that differs from the
  root of the copied default, the new build context has the probed root, and the call
  appends exactly one entry to the log, the mismatch warning. When it returns without
  error the root of the default, the new build context keeps that root and the log gains
  no mismatch warning.
\<close>

theorem newBuildContext_reconciles_root:
  assumes "getGoroot w ctx dir = (r, None)"
  shows "(r \<noteq> '''' \<and> r \<noteq> GOROOT (gb_Default s) \<longrightarrow>
            (\<exists>g. fst (newBuildContext w ctx dir s) = (Some g, None) \<and> GOROOT (bc g) = r) \<and>
            log_output (snd (newBuildContext w ctx dir s)) =
              log_output s @ [Printf gorootWarningTemplate
                                [ArgString (GOROOT (gb_Default s)), ArgString r, ArgString r]]) \<and>
         (r = GOROOT (gb_Default s) \<longrightarrow>
            (\<exists>g. fst (newBuildContext w ctx dir s) = (Some g, None) \<and>
                  GOROOT (bc g) = GOROOT (gb_Default s)) \<and>
            filter is_mismatch_warning (log_output (snd (newBuildContext w ctx dir s))) =
              filter is_mismatch_warning (log_output s))"
  using assms probeEmptyFormat_not_warning
  by (auto simp add: newBuildContext_def Let_def log_Printf_def)

theorem newBuildContext_reconciles_root_witness:
  "getGoroot probe_new () ''/src'' = (''/opt/go1.15'', None) \<and>
   ''/opt/go1.15'' \<noteq> GOROOT (gb_Default example_global) \<and>
   (\<exists>g. fst (newBuildContext probe_new () ''/src'' example_global) = (Some g, None) \<and>
        GOROOT (bc g) = ''/opt/go1.15'') \<and>
   length (log_output (snd (newBuildContext probe_new () ''/src'' example_global))) = 1 \<and>
   getGoroot probe_same () ''/src'' = (''/usr/local/go'', None) \<and>
   ''/usr/local/go'' = GOROOT (gb_Default example_global) \<and>
   (\<exists>g. fst (newBuildContext probe_same () ''/src'' example_global) = (Some g, None) \<and>
        GOROOT (bc g) = ''/usr/local/go'') \<and>
   filter is_mismatch_warning (log_output (snd (newBuildContext probe_same () ''/src'' example_global))) = []"
proof -
  have a: "getGoroot probe_new () ''/src'' = (''/opt/go1.15'', None)"
    by (simp add: example_defs probe_new_def)
  have b: "getGoroot probe_same () ''/src'' = (''/usr/local/go'', None)"
    by (simp add: example_defs probe_same_def)
  have c: "GOROOT (gb_Default example_global) = ''/usr/local/go''"
    "log_output example_global = []"
    by (simp_all add: example_defs)
  show ?thesis
    using newBuildContext_reconciles_root [OF a, of example_global]
      newBuildContext_reconciles_root [OF b, of example_global] a b c
    by simp
qed

text \<open>
  C6. When \<^verbatim>\<open>getGoroot\<close> fails or returns the empty string, exactly one diagnostic is
  logged, the build context is the default with only \<^verbatim>\<open>Dir\<close> bound (the root of the
  default is kept), and the construction returns the context with a nil error.
\<close>

theorem newBuildContext_probe_failure:
  assumes "getGoroot w ctx dir = (r, err)" and "err \<noteq> None \<or> r = ''''"
  shows "fst (newBuildContext w ctx dir s) = (Some \<lparr>bc = (gb_Default s)\<lparr>Dir := dir\<rparr>\<rparr>, None) \<and>
         log_output (snd (newBuildContext w ctx dir s)) =
           log_output s @
             [case err of
                Some e \<Rightarrow> Printf probeErrorFormat [ArgError e, ArgString r]
              | None \<Rightarrow> Printf probeEmptyFormat []]"
  using assms
  by (auto simp add: newBuildContext_def log_Printf_def split: option.splits)

theorem newBuildContext_probe_failure_witness:
  "getGoroot probe_failed () ''/src'' =
     ('''', Some (ExternalError ''exec: go: executable file not found in $PATH'')) \<and>
   fst (newBuildContext probe_failed () ''/src'' example_global) =
     (Some \<lparr>bc = example_default\<lparr>Dir := ''/src''\<rparr>\<rparr>, None) \<and>
   log_output (snd (newBuildContext probe_failed () ''/src'' example_global)) =
     [Printf probeErrorFormat
        [ArgError (ExternalError ''exec: go: executable file not found in $PATH''), ArgString '''']] \<and>
   getGoroot probe_empty () ''/src'' = ('''', None) \<and>
   fst (newBuildContext probe_empty () ''/src'' example_global) =
     (Some \<lparr>bc = example_default\<lparr>Dir := ''/src''\<rparr>\<rparr>, None) \<and>
   log_output (snd (newBuildContext probe_empty () ''/src'' example_global)) =
     [Printf probeEmptyFormat []]"
proof -
  have a: "getGoroot probe_failed () ''/src'' =
     ('''', Some (ExternalError ''exec: go: executable file not found in $PATH''))"
    by (simp add: example_defs probe_failed_def)
  have b: "getGoroot probe_empty () ''/src'' = ('''', None)"
    by (simp add: example_defs probe_empty_def)
  have c: "gb_Default example_global = example_default" "log_output example_global = []"
    by (simp_all add: example_global_def)
  show ?thesis
    using newBuildContext_probe_failure [OF a, of example_global]
      newBuildContext_probe_failure [OF b, of example_global] a b c
    by simp
qed

text \<open>
  C10. \<^verbatim>\<open>newBuildContext\<close> returns a non-nil build context and a nil error, whatever
  the context, the directory, the collaborators and the process state are.
\<close>

theorem newBuildContext_always_succeeds:
  "\<exists>g. fst (newBuildContext w ctx dir s) = (Some g, None)"
  by (simp add: newBuildContext_def Let_def split: prod.splits option.splits)

text \<open>
  C9. \<^verbatim>\<open>go/build.Default\<close> is the same after the construction as before; the new
  build context holds a copy of it in which only \<^verbatim>\<open>Dir\<close> and \<^verbatim>\<open>GOROOT\<close> may
  differ; and \<^verbatim>\<open>importPackage\<close>, \<^verbatim>\<open>moduleInfo\<close> and \<^verbatim>\<open>qualifyLocalImport\<close> leave
  the whole process state, the default included, as it was.
\<close>

theorem default_configuration_never_written:
  "gb_Default (snd (newBuildContext w ctx dir s)) = gb_Default s \<and>
   (\<exists>g. fst (newBuildContext w ctx dir s) = (Some g, None) \<and>
       bc g = (gb_Default s)\<lparr>Dir := dir, GOROOT := GOROOT (bc g)\<rparr>) \<and>
   snd (importPackage w g path srcDir s) = s \<and>
   snd (moduleInfo w g ctx s) = s \<and>
   snd (qualifyLocalImport w g importpath s) = s"
  by (auto simp add: newBuildContext_def importPackage_def moduleInfo_def qualifyLocalImport_def
      Let_def log_Printf_def split: prod.splits option.splits sum.splits)

subsection \<open>moduleInfo\<close>

lemma moduleInfo_cases:
  assumes "goList w g ctx = (output, err)"
  shows "fst (moduleInfo w g ctx s) =
    (case err of
       Some e \<Rightarrow> (None, None)
     | None \<Rightarrow>
         (case decode_loop (NewDecoder w output) [] \<lparr>main = None, deps = Map.empty\<rparr> of
            Inl e \<Rightarrow> (None, Some e)
          | Inr (h, modules) \<Rightarrow>
              if main modules = None
              then (None, Some (Errorf ''couldn't find main module'' None))
              else (Some (h, modules), None)))"
  using assms
  by (simp add: moduleInfo_def goList_def split: option.splits sum.splits prod.splits)

text \<open>
  C1. When the invocation of \<^verbatim>\<open>go list\<close> returns an error, \<^verbatim>\<open>moduleInfo\<close> returns a nil
  graph and a nil error; when the invocation returns no error, \<^verbatim>\<open>moduleInfo\<close> never
  returns that pair, whatever the decoder delivers: (nil, nil) comes from the invocation
  step only.
\<close>

theorem moduleInfo_nil_nil:
  assumes "goList w g ctx = (output, err)"
  shows "(err \<noteq> None \<longrightarrow> fst (moduleInfo w g ctx s) = (None, None)) \<and>
         (err = None \<longrightarrow> fst (moduleInfo w g ctx s) \<noteq> (None, None))"
  by (auto simp add: moduleInfo_cases [OF assms] split: sum.splits)

theorem moduleInfo_nil_nil_witness:
  "goList listing_failed example_g () = ('''', Some (ExternalError ''exit status 1'')) \<and>
   fst (moduleInfo listing_failed example_g () example_global) = (None, None) \<and>
   goList listing_no_main example_g () = (''{...}'', None) \<and>
   fst (moduleInfo listing_no_main example_g () example_global) \<noteq> (None, None)"
proof -
  have a: "goList listing_failed example_g () = ('''', Some (ExternalError ''exit status 1''))"
    by (simp add: listing_failed_def listing_defs)
  have b: "goList listing_no_main example_g () = (''{...}'', None)"
    by (simp add: listing_no_main_def listing_defs)
  show ?thesis
    using moduleInfo_nil_nil [OF a, of example_global] moduleInfo_nil_nil [OF b, of example_global] a b
    by simp
qed

text \<open>
  C2. When the invocation succeeds and every record of the listing decodes without error
  but none is marked main, \<^verbatim>\<open>moduleInfo\<close> returns a nil graph and the error with the
  message ``couldn't find main module'', which wraps nothing and so differs from every
  decode-failure error.
\<close>

theorem moduleInfo_no_main_module:
  assumes "goList w g ctx = (output, None)"
    and "NewDecoder w output = oks recs"
    and "\<forall>r\<in>set recs. \<not> Main r"
  shows "fst (moduleInfo w g ctx s) = (None, Some (Errorf ''couldn't find main module'' None)) \<and>
         Error (Errorf ''couldn't find main module'' None) = ''couldn't find main module'' \<and>
         (\<forall>e. Errorf ''couldn't find main module'' None \<noteq>
                Errorf (''error reading module data '' @ Error e) (Some e))"
proof -
  obtain ms' where run:
    "decode_loop (oks recs) [] \<lparr>main = None, deps = Map.empty\<rparr> = Inr ([] @ recs, ms')"
    using decode_loop_oks_heap by blast
  from decode_loop_oks_main_other [OF run assms(3)] have "main ms' = None"
    by simp
  with run show ?thesis
    by (simp add: moduleInfo_cases [OF assms(1)] assms(2))
qed

theorem moduleInfo_no_main_module_witness:
  "goList listing_no_main example_g () = (''{...}'', None) \<and>
   NewDecoder listing_no_main ''{...}'' = oks [lib] \<and>
   \<not> Main lib \<and>
   fst (moduleInfo listing_no_main example_g () example_global) =
     (None, Some (Errorf ''couldn't find main module'' None))"
proof -
  have a: "goList listing_no_main example_g () = (''{...}'', None)"
    by (simp add: listing_no_main_def listing_defs)
  have b: "NewDecoder listing_no_main ''{...}'' = oks [lib]"
    by (simp add: listing_no_main_def listing_defs)
  have c: "\<forall>r\<in>set [lib]. \<not> Main r"
    by (simp add: lib_def)
  show ?thesis
    using moduleInfo_no_main_module [OF a b c, of example_global] a b c
    by simp
qed

text \<open>
  C7. When the invocation succeeds and, after any number of records decoded without error,
  \<^verbatim>\<open>Decode\<close> returns an error other than \<^verbatim>\<open>io.EOF\<close>, \<^verbatim>\<open>moduleInfo\<close> returns a nil
  graph and an error that wraps the decoder's error and whose message is ``error reading
  module data '' followed by the message of the decoder's error.
\<close>

theorem moduleInfo_decode_error:
  assumes "goList w g ctx = (output, None)"
    and "NewDecoder w output = oks pre @ (info, Some e) # rest"
    and "e \<noteq> EOF"
  shows "fst (moduleInfo w g ctx s) =
           (None, Some (Errorf (''error reading module data '' @ Error e) (Some e)))"
  by (simp add: moduleInfo_cases [OF assms(1)] assms(2) decode_loop_error [OF assms(3)])

theorem moduleInfo_decode_error_witness:
  "goList listing_malformed example_g () = (''{...}{'', None) \<and>
   NewDecoder listing_malformed ''{...}{'' =
     oks [app] @ (zero_modInfo, Some (ExternalError ''unexpected EOF'')) # [] \<and>
   ExternalError ''unexpected EOF'' \<noteq> EOF \<and>
   fst (moduleInfo listing_malformed example_g () example_global) =
     (None, Some (Errorf ''error reading module data unexpected EOF''
                    (Some (ExternalError ''unexpected EOF''))))"
proof -
  have a: "goList listing_malformed example_g () = (''{...}{'', None)"
    by (simp add: listing_malformed_def listing_defs)
  have b: "NewDecoder listing_malformed ''{...}{'' =
     oks [app] @ (zero_modInfo, Some (ExternalError ''unexpected EOF'')) # []"
    by (simp add: listing_malformed_def listing_defs)
  have c: "ExternalError ''unexpected EOF'' \<noteq> EOF"
    by simp
  show ?thesis
    using moduleInfo_decode_error [OF a b c, of example_global] a b c
    by simp
qed

text \<open>
  C3. When the invocation succeeds, every record decodes without error and some record is
  marked main, \<^verbatim>\<open>moduleInfo\<close> returns a graph and a nil error. The heap of the graph is
  the list of the decoded records; \<^verbatim>\<open>main\<close> points to a record marked main; the keys of
  \<^verbatim>\<open>deps\<close> are the paths of the decoded records, the main module's among them; a path
  is mapped to the last record that carries it (last write wins); and when the paths are
  pairwise distinct every record is the entry of its own path and \<^verbatim>\<open>deps\<close> has as many
  entries as there are decoded records.
\<close>

theorem moduleInfo_graph:
  assumes "goList w g ctx = (output, None)"
    and "NewDecoder w output = oks recs"
    and "\<exists>r\<in>set recs. Main r"
  shows "\<exists>ms a. fst (moduleInfo w g ctx s) = (Some (recs, ms), None) \<and>
           main ms = Some a \<and> a < length recs \<and> Main (recs ! a) \<and>
           dom (deps ms) = Path ` set recs \<and>
           (\<forall>i<length recs.
              (\<forall>j. i < j \<and> j < length recs \<longrightarrow> Path (recs ! j) \<noteq> Path (recs ! i)) \<longrightarrow>
              deps ms (Path (recs ! i)) = Some i) \<and>
           (distinct (map Path recs) \<longrightarrow>
              (\<forall>i<length recs. deps ms (Path (recs ! i)) = Some i) \<and>
              card (dom (deps ms)) = length recs)"
proof -
  let ?ms0 = "\<lparr>main = None, deps = Map.empty\<rparr>"
  obtain ms where run: "decode_loop (oks recs) [] ?ms0 = Inr ([] @ recs, ms)"
    using decode_loop_oks_heap by blast
  from last_with [OF assms(3)] obtain a where a: "a < length recs" "Main (recs ! a)"
    "\<forall>j. a < j \<and> j < length recs \<longrightarrow> \<not> Main (recs ! j)"
    by blast
  from decode_loop_oks_main_last [OF run a] have m: "main ms = Some a"
    by simp
  from decode_loop_oks_dom [OF run] have d: "dom (deps ms) = Path ` set recs"
    by simp
  have l: "deps ms (Path (recs ! i)) = Some i"
    if "i < length recs" "\<forall>j. i < j \<and> j < length recs \<longrightarrow> Path (recs ! j) \<noteq> Path (recs ! i)" for i
    using decode_loop_oks_deps_last [OF run that] by simp
  have u: "deps ms (Path (recs ! i)) = Some i" if "distinct (map Path recs)" "i < length recs" for i
  proof (rule l [OF that(2)], intro allI impI)
    fix j assume "i < j \<and> j < length recs"
    with that show "Path (recs ! j) \<noteq> Path (recs ! i)"
      by (auto simp add: distinct_conv_nth)
  qed
  have c: "card (dom (deps ms)) = length recs" if "distinct (map Path recs)"
    using distinct_card [OF that] d by simp
  have res: "fst (moduleInfo w g ctx s) = (Some (recs, ms), None)"
    using run m by (simp add: moduleInfo_cases [OF assms(1)] assms(2))
  from res m a(1,2) d l u c show ?thesis
    by blast
qed

theorem moduleInfo_graph_witness:
  "goList listing_app_lib example_g () = (''{...}{...}'', None) \<and>
   NewDecoder listing_app_lib ''{...}{...}'' = oks [app, lib] \<and>
   Main app \<and> distinct (map Path [app, lib]) \<and>
   (\<exists>ms. fst (moduleInfo listing_app_lib example_g () example_global) = (Some ([app, lib], ms), None) \<and>
      main ms = Some 0 \<and>
      dom (deps ms) = {''example.com/app'', ''example.com/lib''} \<and>
      deps ms ''example.com/app'' = Some 0 \<and>
      deps ms ''example.com/lib'' = Some 1 \<and>
      card (dom (deps ms)) = 2) \<and>
   goList listing_repeated example_g () = (''{...}{...}{...}'', None) \<and>
   NewDecoder listing_repeated ''{...}{...}{...}'' = oks [app, lib, lib_replaced] \<and>
   (\<exists>ms. fst (moduleInfo listing_repeated example_g () example_global) =
           (Some ([app, lib, lib_replaced], ms), None) \<and>
      deps ms ''example.com/lib'' = Some 2 \<and>
      deref [app, lib, lib_replaced] 2 = Some lib_replaced)"
proof -
  have a: "goList listing_app_lib example_g () = (''{...}{...}'', None)"
    by (simp add: listing_app_lib_def listing_defs)
  have b: "NewDecoder listing_app_lib ''{...}{...}'' = oks [app, lib]"
    by (simp add: listing_app_lib_def listing_defs)
  have c: "\<exists>r\<in>set [app, lib]. Main r"
    by (simp add: app_def)
  have d: "distinct (map Path [app, lib])" "Main app" "\<not> Main lib"
    "Path app = ''example.com/app''" "Path lib = ''example.com/lib''"
    by (simp_all add: app_def lib_def)
  have a': "goList listing_repeated example_g () = (''{...}{...}{...}'', None)"
    by (simp add: listing_repeated_def listing_defs)
  have b': "NewDecoder listing_repeated ''{...}{...}{...}'' = oks [app, lib, lib_replaced]"
    by (simp add: listing_repeated_def listing_defs)
  have c': "\<exists>r\<in>set [app, lib, lib_replaced]. Main r"
    by (simp add: app_def)
  have d': "Path lib_replaced = ''example.com/lib''" "deref [app, lib, lib_replaced] 2 = Some lib_replaced"
    by (simp_all add: lib_replaced_def deref_def)
  from moduleInfo_graph [OF a b c, of example_global] obtain ms k
    where 1: "fst (moduleInfo listing_app_lib example_g () example_global) = (Some ([app, lib], ms), None)"
      "main ms = Some k" "k < 2" "Main ([app, lib] ! k)"
      "dom (deps ms) = Path ` set [app, lib]"
      "\<forall>i<length [app, lib]. deps ms (Path ([app, lib] ! i)) = Some i"
      "card (dom (deps ms)) = length [app, lib]"
    using d(1) by auto
  from 1(3,4) d have k: "k = 0"
    by (cases k) auto
  from 1(6) have e: "deps ms (Path app) = Some 0" "deps ms (Path lib) = Some 1"
    by (auto simp add: All_less_Suc numeral_2_eq_2)
  from moduleInfo_graph [OF a' b' c', of example_global] obtain ms'
    where 2: "fst (moduleInfo listing_repeated example_g () example_global) =
        (Some ([app, lib, lib_replaced], ms'), None)"
        "\<forall>i<length [app, lib, lib_replaced].
              (\<forall>j. i < j \<and> j < length [app, lib, lib_replaced] \<longrightarrow>
                 Path ([app, lib, lib_replaced] ! j) \<noteq> Path ([app, lib, lib_replaced] ! i)) \<longrightarrow>
              deps ms' (Path ([app, lib, lib_replaced] ! i)) = Some i"
    by auto
  have later: "\<forall>j. (2::nat) < j \<and> j < length [app, lib, lib_replaced] \<longrightarrow>
      Path ([app, lib, lib_replaced] ! j) \<noteq> Path ([app, lib, lib_replaced] ! 2)"
    by auto
  have "(2::nat) < length [app, lib, lib_replaced]"
    by simp
  with 2(2) later have "deps ms' (Path ([app, lib, lib_replaced] ! 2)) = Some 2"
    by blast
  then have f: "deps ms' ''example.com/lib'' = Some 2"
    by (simp add: d')
  show ?thesis
    using a b d 1 k e a' b' 2(1) f d'
    by auto
qed

text \<open>
  C4, as the specification states it, fails: nothing in the loop counts the records
  marked main, and a later record may take over the \<^verbatim>\<open>deps\<close> entry of the main module's
  path. On the listing \<open>[app, lib_main, lib]\<close> the call succeeds although two records
  are marked main, \<^verbatim>\<open>main\<close> is the second record, and \<^verbatim>\<open>deps\<close> maps its path to the
  third.
\<close>

theorem moduleInfo_main_unique_counterexample:
  "fst (moduleInfo listing_two_mains example_g () example_global) =
     (Some ([app, lib_main, lib],
            \<lparr>main = Some 1, deps = [''example.com/app'' \<mapsto> 0, ''example.com/lib'' \<mapsto> 2]\<rparr>),
      None) \<and>
   decoded (NewDecoder listing_two_mains ''{...}{...}{...}'') = [app, lib_main, lib] \<and>
   length (filter Main [app, lib_main, lib]) = 2 \<and>
   Path ([app, lib_main, lib] ! 1) = ''example.com/lib'' \<and>
   [''example.com/app'' \<mapsto> 0, ''example.com/lib'' \<mapsto> 2] ''example.com/lib'' \<noteq> Some (1::nat)"
  by (simp add: moduleInfo_def listing_two_mains_def listing_defs oks_simps decoded_def
      decode_loop_Cons decode_loop_Nil app_def lib_def lib_main_def numeral_2_eq_2)

text \<open>
  C4, amended. For every graph \<^verbatim>\<open>moduleInfo\<close> returns, the heap is the list of the decoded
  records, at least one of them is marked main, and \<^verbatim>\<open>main\<close> points to the last record
  marked main; when no later record carries the same path, \<^verbatim>\<open>deps\<close> at that path holds
  the same pointer as \<^verbatim>\<open>main\<close>. When no decoded record is marked main, the call
  returns a nil graph and a non-nil error.
\<close>

theorem moduleInfo_main_is_last_marked:
  assumes "goList w g ctx = (output, None)"
    and "recs = decoded (NewDecoder w output)"
  shows "(\<forall>h ms. fst (moduleInfo w g ctx s) = (Some (h, ms), None) \<longrightarrow>
            h = recs \<and>
            (\<exists>i<length recs.
               Main (recs ! i) \<and> (\<forall>j. i < j \<and> j < length recs \<longrightarrow> \<not> Main (recs ! j)) \<and>
               main ms = Some i \<and>
               ((\<forall>j. i < j \<and> j < length recs \<longrightarrow> Path (recs ! j) \<noteq> Path (recs ! i)) \<longrightarrow>
                  deps ms (Path (recs ! i)) = main ms))) \<and>
         ((\<forall>r\<in>set recs. \<not> Main r) \<longrightarrow>
            fst (fst (moduleInfo w g ctx s)) = None \<and> snd (fst (moduleInfo w g ctx s)) \<noteq> None)"
proof (intro conjI allI impI)
  let ?ms0 = "\<lparr>main = None, deps = Map.empty\<rparr>"
  let ?dec = "NewDecoder w output"
  note cases = moduleInfo_cases [OF assms(1), of s]
  {
    fix h ms
    assume ok: "fst (moduleInfo w g ctx s) = (Some (h, ms), None)"
    then have loop: "decode_loop ?dec [] ?ms0 = Inr (h, ms)" and some: "main ms \<noteq> None"
      by (auto simp add: cases split: sum.splits if_splits)
    from decode_loop_success_decoded [OF loop]
    have run: "decode_loop (oks recs) [] ?ms0 = Inr (h, ms)"
      by (simp add: assms(2))
    from decode_loop_oks_heap [of recs "[]" ?ms0] run show h: "h = recs"
      by auto
    have "\<exists>r\<in>set recs. Main r"
    proof (rule ccontr)
      assume "\<not> (\<exists>r\<in>set recs. Main r)"
      then have "\<forall>r\<in>set recs. \<not> Main r" by blast
      from decode_loop_oks_main_other [OF run this] some show False
        by simp
    qed
    from last_with [OF this] obtain i where i: "i < length recs" "Main (recs ! i)"
      "\<forall>j. i < j \<and> j < length recs \<longrightarrow> \<not> Main (recs ! j)"
      by blast
    from decode_loop_oks_main_last [OF run i] have m: "main ms = Some i"
      by simp
    have "deps ms (Path (recs ! i)) = main ms"
      if "\<forall>j. i < j \<and> j < length recs \<longrightarrow> Path (recs ! j) \<noteq> Path (recs ! i)"
      using decode_loop_oks_deps_last [OF run i(1) that] m by simp
    with i m show "\<exists>i<length recs.
               Main (recs ! i) \<and> (\<forall>j. i < j \<and> j < length recs \<longrightarrow> \<not> Main (recs ! j)) \<and>
               main ms = Some i \<and>
               ((\<forall>j. i < j \<and> j < length recs \<longrightarrow> Path (recs ! j) \<noteq> Path (recs ! i)) \<longrightarrow>
                  deps ms (Path (recs ! i)) = main ms)"
      by blast
  }
  assume none: "\<forall>r\<in>set recs. \<not> Main r"
  have "main ms = None" if "decode_loop ?dec [] ?ms0 = Inr (h, ms)" for h ms
    using decode_loop_oks_main_other [OF decode_loop_success_decoded [OF that, folded assms(2)] none]
    by simp
  then show "fst (fst (moduleInfo w g ctx s)) = None" "snd (fst (moduleInfo w g ctx s)) \<noteq> None"
    by (auto simp add: cases split: sum.splits)
qed

theorem moduleInfo_main_is_last_marked_witness:
  "goList listing_app_lib example_g () = (''{...}{...}'', None) \<and>
   decoded (NewDecoder listing_app_lib ''{...}{...}'') = [app, lib] \<and>
   (\<exists>ms. fst (moduleInfo listing_app_lib example_g () example_global) = (Some ([app, lib], ms), None) \<and>
      main ms = Some 0 \<and> deps ms (Path app) = Some 0) \<and>
   Main app \<and> \<not> Main lib \<and>
   goList listing_no_main example_g () = (''{...}'', None) \<and>
   decoded (NewDecoder listing_no_main ''{...}'') = [lib] \<and>
   fst (fst (moduleInfo listing_no_main example_g () example_global)) = None \<and>
   snd (fst (moduleInfo listing_no_main example_g () example_global)) \<noteq> None"
proof -
  have a: "goList listing_app_lib example_g () = (''{...}{...}'', None)"
    by (simp add: listing_app_lib_def listing_defs)
  have b: "[app, lib] = decoded (NewDecoder listing_app_lib ''{...}{...}'')"
    by (simp add: listing_app_lib_def listing_defs decoded_def oks_simps)
  have c: "fst (moduleInfo listing_app_lib example_g () example_global) =
      (Some ([app, lib], \<lparr>main = Some 0, deps = [Path app \<mapsto> 0, Path lib \<mapsto> 1]\<rparr>), None)"
    by (simp add: moduleInfo_def listing_app_lib_def listing_defs oks_simps
        decode_loop_Cons decode_loop_Nil app_def lib_def)
  have d: "Main app" "\<not> Main lib" "Path lib \<noteq> Path app"
    by (simp_all add: app_def lib_def)
  have a': "goList listing_no_main example_g () = (''{...}'', None)"
    by (simp add: listing_no_main_def listing_defs)
  have b': "[lib] = decoded (NewDecoder listing_no_main ''{...}'')"
    by (simp add: listing_no_main_def listing_defs decoded_def oks_simps)
  note t = moduleInfo_main_is_last_marked [OF a b, of example_global, THEN conjunct1]
  from t c have f: "\<exists>i<length [app, lib]. Main ([app, lib] ! i) \<and>
      main \<lparr>main = Some 0, deps = [Path app \<mapsto> 0, Path lib \<mapsto> 1]\<rparr> = Some i"
    by blast
  have n: "\<forall>r\<in>set [lib]. \<not> Main r"
    using d(2) by simp
  note t' = moduleInfo_main_is_last_marked [OF a' b', of example_global, THEN conjunct2]
  from t' n have e: "fst (fst (moduleInfo listing_no_main example_g () example_global)) = None \<and>
    snd (fst (moduleInfo listing_no_main example_g () example_global)) \<noteq> None"
    by (rule mp)
  have g: "deps \<lparr>main = Some 0, deps = [Path app \<mapsto> 0, Path lib \<mapsto> 1]\<rparr> (Path app) = Some 0"
    using d(3) by simp
  show ?thesis
    unfolding c using a b [symmetric] d(1,2) a' b' [symmetric] e f g
    by (intro conjI exI [of _ "\<lparr>main = Some 0, deps = [Path app \<mapsto> 0, Path lib \<mapsto> 1]\<rparr>"]) simp_all
qed

subsection \<open>qualifyLocalImport\<close>

text \<open>The decimal rendering \<open>itoa\<close> reads back as the number it renders.\<close>

lemma digit_char_value: "k < 10 \<Longrightarrow> of_char (''0123456789'' ! k) = (48::nat) + k"
proof -
  assume "k < 10"
  then have "k = 0 \<or> k = 1 \<or> k = 2 \<or> k = 3 \<or> k = 4 \<or> k = 5 \<or> k = 6 \<or> k = 7 \<or> k = 8 \<or> k = 9"
    by arith
  then show ?thesis
    by (elim disjE) simp_all
qed

lemma itoa_decimal: "decimal_value (itoa n) = n"
proof (induction n rule: itoa.induct)
  case (1 n)
  show ?case
  proof (cases "n < 10")
    case True
    then show ?thesis
      by (subst itoa.simps) (simp add: decimal_value_def digit_char_value)
  next
    case False
    with 1 have "decimal_value (itoa (n div 10)) = n div 10"
      by simp
    moreover have "n mod 10 < 10"
      by simp
    ultimately show ?thesis
      using False
      by (subst itoa.simps) (simp add: decimal_value_def digit_char_value del: itoa.simps)
  qed
qed

text \<open>
  C8. \<^verbatim>\<open>qualifyLocalImport\<close> returns an error exactly when \<^verbatim>\<open>packages.Load\<close> returns an
  error or a number of packages other than one. An error of the loader is returned as it
  is, with the empty string; without a loader error, zero or several packages give the
  error ``found N local packages, expected 1'' with N the decimal rendering of the number
  of packages; and one package gives its \<^verbatim>\<open>PkgPath\<close> and a nil error.
\<close>

theorem qualifyLocalImport_result:
  assumes "packages_Load w \<lparr>Mode = NeedName, cfg_Dir = Dir (bc g)\<rparr> [importpath] = (pkgs, err)"
  shows "(snd (fst (qualifyLocalImport w g importpath s)) \<noteq> None) = (err \<noteq> None \<or> length pkgs \<noteq> 1) \<and>
         (\<forall>e. err = Some e \<longrightarrow> fst (qualifyLocalImport w g importpath s) = ('''', Some e)) \<and>
         (err = None \<and> length pkgs \<noteq> 1 \<longrightarrow>
            fst (qualifyLocalImport w g importpath s) =
              ('''', Some (Errorf (''found '' @ itoa (length pkgs) @ '' local packages, expected 1'')
                            None)) \<and>
            decimal_value (itoa (length pkgs)) = length pkgs) \<and>
         (\<forall>p. err = None \<and> pkgs = [p] \<longrightarrow>
            fst (qualifyLocalImport w g importpath s) = (PkgPath p, None))"
  using assms itoa_decimal [of "length pkgs"]
  by (cases err) (auto simp add: qualifyLocalImport_def simp del: itoa.simps)

theorem qualifyLocalImport_result_witness:
  "packages_Load (loading ([], Some (ExternalError ''go: cannot find main module'')))
     \<lparr>Mode = NeedName, cfg_Dir = Dir (bc example_g)\<rparr> [''./foo''] =
     ([], Some (ExternalError ''go: cannot find main module'')) \<and>
   fst (qualifyLocalImport (loading ([], Some (ExternalError ''go: cannot find main module'')))
          example_g ''./foo'' example_global) =
     ('''', Some (ExternalError ''go: cannot find main module'')) \<and>
   fst (qualifyLocalImport (loading ([], None)) example_g ''./foo'' example_global) =
     ('''', Some (Errorf ''found 0 local packages, expected 1'' None)) \<and>
   fst (qualifyLocalImport (loading ([foo, bar], None)) example_g ''./...'' example_global) =
     ('''', Some (Errorf ''found 2 local packages, expected 1'' None)) \<and>
   fst (qualifyLocalImport (loading ([foo], None)) example_g ''./foo'' example_global) =
     (''example.com/app/foo'', None)"
proof -
  let ?e = "ExternalError ''go: cannot find main module''"
  have a: "packages_Load (loading (ps, er)) \<lparr>Mode = NeedName, cfg_Dir = Dir (bc example_g)\<rparr> [p] =
      (ps, er)" for ps er p
    by (simp add: loading_def example_world_def)
  have 1: "fst (qualifyLocalImport (loading ([], Some ?e)) example_g ''./foo'' example_global) =
      ('''', Some ?e)"
    using qualifyLocalImport_result [OF a [of "[]" "Some ?e" "''./foo''"], of example_global] by simp
  have 2: "fst (qualifyLocalImport (loading ([], None)) example_g ''./foo'' example_global) =
      ('''', Some (Errorf ''found 0 local packages, expected 1'' None))"
    using qualifyLocalImport_result [OF a [of "[]" None "''./foo''"], of example_global] by simp
  have 3: "fst (qualifyLocalImport (loading ([foo, bar], None)) example_g ''./...'' example_global) =
      ('''', Some (Errorf ''found 2 local packages, expected 1'' None))"
    using qualifyLocalImport_result [OF a [of "[foo, bar]" None "''./...''"], of example_global] by simp
  have 4: "fst (qualifyLocalImport (loading ([foo], None)) example_g ''./foo'' example_global) =
      (''example.com/app/foo'', None)"
    using qualifyLocalImport_result [OF a [of "[foo]" None "''./foo''"], of example_global] by (simp add: foo_def)
  from a 1 2 3 4 show ?thesis
    by simp
qed

end
